theory Spec2Isabelle
  imports Main
begin

section \<open>Exceptions, operations and the observable world\<close>

text \<open>
  The module \<^verbatim>\<open>utils/error_handling.py\<close> offers a retry decorator and a
  process-wide fallback registry. A Python exception is modelled by its class name, its
  \<^verbatim>\<open>str()\<close> rendering and whether it is an instance of \<^verbatim>\<open>Exception\<close>:
  \<^verbatim>\<open>KeyboardInterrupt\<close>, \<^verbatim>\<open>SystemExit\<close> and \<^verbatim>\<open>GeneratorExit\<close>
  derive from \<^verbatim>\<open>BaseException\<close> only, and \<^verbatim>\<open>except Exception\<close> lets them pass.
\<close>

datatype pyexc = PyExc (is_Exception: bool) (exc_class: string) (exc_str: string)

text \<open>
  What a run of the wrapper does to its surroundings, in order: an invocation of the
  wrapped function (with what it produced), a call of \<^verbatim>\<open>logger_func\<close> (with the
  message passed) and a completed \<^verbatim>\<open>time.sleep\<close> (with its duration, a number of
  type \<open>'d\<close>: a Python \<^verbatim>\<open>int\<close> or a Python \<^verbatim>\<open>float\<close>).
\<close>

datatype ('d, 'v) event = Invoked "pyexc + 'v" | Logged string | Slept 'd

text \<open>
  The world is the state the wrapped function and the logger act on (\<open>env\<close>), and the
  record of events so far (\<open>trace\<close>).
\<close>

record ('s, 'd, 'v) world =
  env :: 's
  trace :: "('d, 'v) event list"

text \<open>
  The wrapped function, with the arguments of the call fixed. \<open>name\<close> is what reading
  \<^verbatim>\<open>func.__name__\<close> gives: the name, or the exception of the attribute access (a
  \<^verbatim>\<open>functools.partial\<close> object has no \<^verbatim>\<open>__name__\<close> and raises
  \<^verbatim>\<open>AttributeError\<close>). \<open>run\<close> is its effect, which returns a value (\<open>Inr\<close>) or
  raises (\<open>Inl\<close>) and leaves a new state. The logger takes the message; what it returns
  is ignored, but it may raise.
\<close>

record ('s, 'v) func =
  name :: "pyexc + string"
  run :: "'s \<Rightarrow> (pyexc + 'v) \<times> 's"

type_synonym 's logger = "string \<Rightarrow> 's \<Rightarrow> (pyexc + unit) \<times> 's"

definition call ::
  "('s, 'v) func \<Rightarrow> ('s, 'd, 'v) world \<Rightarrow> (pyexc + 'v) \<times> ('s, 'd, 'v) world" where
  "call func w =
     (case run func (env w) of
        (out, s') \<Rightarrow> (out, \<lparr>env = s', trace = trace w @ [Invoked out]\<rparr>))"

definition call_logger ::
  "'s logger \<Rightarrow> string \<Rightarrow> ('s, 'd, 'v) world \<Rightarrow> (pyexc + unit) \<times> ('s, 'd, 'v) world" where
  "call_logger logger_func msg w =
     (case logger_func msg (env w) of
        (out, s') \<Rightarrow> (out, \<lparr>env = s', trace = trace w @ [Logged msg]\<rparr>))"

text \<open>
  \<^verbatim>\<open>time.sleep(secs)\<close> of the standard library (CPython 3.11) on an \<^verbatim>\<open>int\<close>. The
  seconds are first converted to nanoseconds in a signed 64-bit integer: outside
  \<open>- 9223372036 .. 9223372036\<close> the conversion raises \<^verbatim>\<open>OverflowError\<close>. A negative
  duration then raises \<^verbatim>\<open>ValueError\<close>; any other one blocks for that long and returns.
\<close>

definition time_sleep ::
  "int \<Rightarrow> ('s, int, 'v) world \<Rightarrow> (pyexc + unit) \<times> ('s, int, 'v) world" where
  "time_sleep secs w =
     (if secs < - 9223372036 \<or> 9223372036 < secs then
        (Inl (PyExc True ''OverflowError'' ''timestamp too large to convert to C _PyTime_t''), w)
      else if secs < 0 then
        (Inl (PyExc True ''ValueError'' ''sleep length must be non-negative''), w)
      else (Inr (), w\<lparr>trace := trace w @ [Slept secs]\<rparr>))"


subsection \<open>The retry message\<close>

text \<open>Python's \<^verbatim>\<open>str\<close> of an integer: decimal digits, with a minus sign.\<close>

function digits :: "int \<Rightarrow> string" where
  "digits n =
     (if n < 10 then [char_of (48 + n)]
      else digits (n div 10) @ [char_of (48 + n mod 10)])"
  by pat_completeness auto
termination
  by (relation "measure nat") auto

definition str_int :: "int \<Rightarrow> string" where
  "str_int i = (if i < 0 then CHR ''-'' # digits (- i) else digits i)"

text \<open>
  \<^verbatim>\<open>f"{func.__name__} - Retrying in {mdelay}s... ({mtries-1} tries left). Error: {e}"\<close>,
  given the name and the rendering of \<^verbatim>\<open>mdelay\<close>.
\<close>

definition retry_msg :: "string \<Rightarrow> string \<Rightarrow> int \<Rightarrow> pyexc \<Rightarrow> string" where
  "retry_msg nm mdelay_str mtries e =
     nm @ '' - Retrying in '' @ mdelay_str @ ''s... ('' @ str_int (mtries - 1)
        @ '' tries left). Error: '' @ exc_str e"

section \<open>The retry decorator\<close>

text \<open>
  The body of \<^verbatim>\<open>wrapper\<close>, for \<^verbatim>\<open>delay\<close> and \<^verbatim>\<open>backoff\<close> of type
  \<^verbatim>\<open>int\<close> (as the defaults 1 and 2 are): the \<^verbatim>\<open>while mtries > 0\<close> loop and the
  call after it. Inside the loop a value returned by the function is returned at once; an
  exception that is not an \<^verbatim>\<open>Exception\<close> passes the handler; an exception raised in
  the handler, by reading \<^verbatim>\<open>func.__name__\<close> for the message, by the logger or by
  \<^verbatim>\<open>time.sleep\<close>, leaves the wrapper. A \<^verbatim>\<open>logger_func\<close> that is falsy
  (\<^verbatim>\<open>None\<close>) is not called; the message is built all the same.
\<close>

function wrapper ::
  "('s, 'v) func \<Rightarrow> 's logger option \<Rightarrow> int \<Rightarrow> int \<Rightarrow> int \<Rightarrow> ('s, int, 'v) world
     \<Rightarrow> (pyexc + 'v) \<times> ('s, int, 'v) world" where
  "wrapper func logger_func backoff mtries mdelay w =
     (if mtries > 0 then
        (case call func w of
           (Inr v, w1) \<Rightarrow> (Inr v, w1)
         | (Inl e, w1) \<Rightarrow>
             if \<not> is_Exception e then (Inl e, w1)
             else
               (case name func of
                  Inl a \<Rightarrow> (Inl a, w1)
                | Inr nm \<Rightarrow>
                    (case (case logger_func of
                             None \<Rightarrow> (Inr (), w1)
                           | Some lf \<Rightarrow>
                               call_logger lf (retry_msg nm (str_int mdelay) mtries e) w1) of
                       (Inl e1, w2) \<Rightarrow> (Inl e1, w2)
                     | (Inr _, w2) \<Rightarrow>
                         (case time_sleep mdelay w2 of
                            (Inl e2, w3) \<Rightarrow> (Inl e2, w3)
                          | (Inr _, w3) \<Rightarrow>
                              wrapper func logger_func backoff (mtries - 1) (mdelay * backoff)
                                w3))))
      else call func w)"
  by pat_completeness auto
termination
  by (relation "measure (\<lambda>(func, logger_func, backoff, mtries, mdelay, w). nat mtries)") auto

text \<open>
  \<^verbatim>\<open>retry(tries, delay, backoff, logger_func)(func)\<close>, called in the world \<open>w\<close>:
  \<^verbatim>\<open>mtries, mdelay = tries, delay\<close>.
\<close>

definition retry ::
  "int \<Rightarrow> int \<Rightarrow> int \<Rightarrow> 's logger option \<Rightarrow> ('s, 'v) func \<Rightarrow> ('s, int, 'v) world
     \<Rightarrow> (pyexc + 'v) \<times> ('s, int, 'v) world" where
  "retry tries delay backoff logger_func func w = wrapper func logger_func backoff tries delay w"

section \<open>The retry decorator on floats\<close>






subsection \<open>The rendering of a float\<close>









subsection \<open>Sleeping for a float\<close>





section \<open>The fallback registry\<close>

text \<open>
  The class attribute \<^verbatim>\<open>_fallbacks\<close> is one dictionary from tool names to fallback
  functions, empty when the module is loaded. Both class methods are modelled with the
  registry passed in and returned.
\<close>

record 'f FallbackRegistry =
  fallbacks :: "string \<rightharpoonup> 'f"

definition initial_registry :: "'f FallbackRegistry" where
  "initial_registry = \<lparr>fallbacks = Map.empty\<rparr>"

definition register_fallback :: "string \<Rightarrow> 'f \<Rightarrow> 'f FallbackRegistry \<Rightarrow> 'f FallbackRegistry" where
  "register_fallback tool_name fallback_func reg =
     reg\<lparr>fallbacks := (fallbacks reg)(tool_name \<mapsto> fallback_func)\<rparr>"

definition get_fallback :: "string \<Rightarrow> 'f FallbackRegistry \<Rightarrow> 'f option \<times> 'f FallbackRegistry" where
  "get_fallback tool_name reg = (fallbacks reg tool_name, reg)"

text \<open>A sequence of registrations, made one after the other.\<close>

definition register_all :: "(string \<times> 'f) list \<Rightarrow> 'f FallbackRegistry \<Rightarrow> 'f FallbackRegistry" where
  "register_all regs reg = foldl (\<lambda>r (tool_name, fallback_func). register_fallback tool_name fallback_func r) reg regs"

section \<open>Observations on a trace\<close>

definition invocations :: "('d, 'v) event list \<Rightarrow> (pyexc + 'v) list" where
  "invocations tr = concat (map (\<lambda>ev. case ev of Invoked out \<Rightarrow> [out] | _ \<Rightarrow> []) tr)"

definition logged :: "('d, 'v) event list \<Rightarrow> string list" where
  "logged tr = concat (map (\<lambda>ev. case ev of Logged msg \<Rightarrow> [msg] | _ \<Rightarrow> []) tr)"

definition slept :: "('d, 'v) event list \<Rightarrow> 'd list" where
  "slept tr = concat (map (\<lambda>ev. case ev of Slept secs \<Rightarrow> [secs] | _ \<Rightarrow> []) tr)"


section \<open>Scenarios\<close>

definition boom :: pyexc where
  "boom = PyExc True ''ValueError'' ''boom''"

definition always_boom :: "(nat, string) func" where
  "always_boom = \<lparr>name = Inr ''fetch'', run = (\<lambda>s. (Inl boom, Suc s))\<rparr>"

definition flaky :: "(nat, string) func" where
  "flaky = \<lparr>name = Inr ''fetch'',
            run = (\<lambda>s. (if s < 2 then Inl boom else Inr ''ok'', Suc s))\<rparr>"

text \<open>A \<^verbatim>\<open>functools.partial\<close> of a function that always raises: it has no \<^verbatim>\<open>__name__\<close>.\<close>

definition nameless_boom :: "(nat, string) func" where
  "nameless_boom =
     \<lparr>name = Inl (PyExc True ''AttributeError''
                    (CHR 0x27 # ''functools.partial'' @ CHR 0x27 # '' object has no attribute ''
                       @ CHR 0x27 # ''__name__'' @ [CHR 0x27])),
      run = (\<lambda>s. (Inl boom, Suc s))\<rparr>"

definition quiet_logger :: "nat logger" where
  "quiet_logger msg s = (Inr (), s)"




section \<open>Unfolding the loop\<close>

declare wrapper.simps [simp del]

lemma invocations_simps [simp]:
  "invocations [] = []"
  "invocations (Invoked out # tr) = out # invocations tr"
  "invocations (Logged msg # tr) = invocations tr"
  "invocations (Slept secs # tr) = invocations tr"
  "invocations (tr @ tr') = invocations tr @ invocations tr'"
  by (simp_all add: invocations_def)

lemma logged_simps [simp]:
  "logged [] = []"
  "logged (Invoked out # tr) = logged tr"
  "logged (Logged msg # tr) = msg # logged tr"
  "logged (Slept secs # tr) = logged tr"
  "logged (tr @ tr') = logged tr @ logged tr'"
  by (simp_all add: logged_def)

lemma slept_simps [simp]:
  "slept [] = []"
  "slept (Invoked out # tr) = slept tr"
  "slept (Logged msg # tr) = slept tr"
  "slept (Slept secs # tr) = secs # slept tr"
  "slept (tr @ tr') = slept tr @ slept tr'"
  by (simp_all add: slept_def)

lemma wrapper_exhausted:
  "mtries \<le> 0 \<Longrightarrow> wrapper func logger_func backoff mtries mdelay w = call func w"
  by (simp add: wrapper.simps)














text \<open>The wrapper with \<open>mtries = 1\<close>, unfolded.\<close>

lemma wrapper_once:
  "wrapper func logger_func backoff 1 mdelay w =
     (case call func w of
        (Inr v, w1) \<Rightarrow> (Inr v, w1)
      | (Inl e, w1) \<Rightarrow>
          if \<not> is_Exception e then (Inl e, w1)
          else
            (case name func of
               Inl a \<Rightarrow> (Inl a, w1)
             | Inr nm \<Rightarrow>
                 (case (case logger_func of
                          None \<Rightarrow> (Inr (), w1)
                        | Some lf \<Rightarrow> call_logger lf (retry_msg nm (str_int mdelay) 1 e) w1) of
                    (Inl e1, w2) \<Rightarrow> (Inl e1, w2)
                  | (Inr _, w2) \<Rightarrow>
                      (case time_sleep mdelay w2 of
                         (Inl e2, w3) \<Rightarrow> (Inl e2, w3)
                       | (Inr _, w3) \<Rightarrow> call func w3))))"
  by (subst wrapper.simps)
     (simp add: wrapper_exhausted split: prod.splits sum.splits option.splits)

text \<open>
  Two more ways out of the handler, beside a logger that raises: a wait that
  \<^verbatim>\<open>time.sleep\<close> refuses, and a function without a \<^verbatim>\<open>__name__\<close>. In both the
  final invocation is never made.
\<close>

lemma refused_wait_leaves_handler:
  "retry 2 1 10000000000 None always_boom \<lparr>env = 0, trace = []\<rparr>
     = (Inl (PyExc True ''OverflowError'' ''timestamp too large to convert to C _PyTime_t''),
        \<lparr>env = 2, trace = [Invoked (Inl boom), Slept 1, Invoked (Inl boom)]\<rparr>)"
  by code_simp

lemma missing_name_leaves_handler:
  "isl (fst (retry 2 1 2 None nameless_boom \<lparr>env = 0, trace = []\<rparr>))
   \<and> exc_class (projl (fst (retry 2 1 2 None nameless_boom \<lparr>env = 0, trace = []\<rparr>)))
        = ''AttributeError''
   \<and> trace (snd (retry 2 1 2 None nameless_boom \<lparr>env = 0, trace = []\<rparr>)) = [Invoked (Inl boom)]"
  by code_simp

section \<open>Retry: the claims\<close>













text \<open>
  C8. With \<open>tries = 1\<close> the function is invoked at most twice, and a second invocation is
  the one after the loop, whose outcome the wrapper passes on as the last event. The logger
  is called at most once. At most one wait is taken, of the unmultiplied \<open>delay\<close>, and it
  stands between the single attempt of the loop and the invocation after the loop: there
  is no second attempt in the loop for \<open>backoff\<close> to act on.
\<close>

theorem retry_single_attempt:
  fixes func :: "('s, 'v) func" and logger_func :: "'s logger option" and s0 :: 's
    and delay backoff :: int
  defines "r \<equiv> retry 1 delay backoff logger_func func \<lparr>env = s0, trace = []\<rparr>"
  shows "length (invocations (trace (snd r))) \<le> 2
       \<and> length (logged (trace (snd r))) \<le> 1
       \<and> (slept (trace (snd r)) = [] \<or> slept (trace (snd r)) = [delay])
       \<and> ((\<exists>out. trace (snd r) = [Invoked out])
          \<or> (\<exists>e msg. trace (snd r) = [Invoked (Inl e), Logged msg])
          \<or> (\<exists>e. trace (snd r) = [Invoked (Inl e), Slept delay, Invoked (fst r)])
          \<or> (\<exists>e msg. trace (snd r) = [Invoked (Inl e), Logged msg, Slept delay, Invoked (fst r)]))"
proof -
  have shape: "(\<exists>out. trace (snd r) = [Invoked out])
          \<or> (\<exists>e msg. trace (snd r) = [Invoked (Inl e), Logged msg])
          \<or> (\<exists>e. trace (snd r) = [Invoked (Inl e), Slept delay, Invoked (fst r)])
          \<or> (\<exists>e msg. trace (snd r) = [Invoked (Inl e), Logged msg, Slept delay, Invoked (fst r)])"
    unfolding r_def retry_def wrapper_once
    by (auto simp: call_def call_logger_def time_sleep_def
             split: prod.splits sum.splits option.splits)
  then show ?thesis
    by (elim disjE exE) simp_all
qed

theorem retry_single_attempt_witness:
  "trace (snd (retry 1 1 2 (Some quiet_logger) always_boom \<lparr>env = 0, trace = []\<rparr>))
     = [Invoked (Inl boom), Logged ''fetch - Retrying in 1s... (0 tries left). Error: boom'',
        Slept 1, Invoked (Inl boom)]
   \<and> length (invocations
         (trace (snd (retry 1 1 2 (Some quiet_logger) always_boom \<lparr>env = 0, trace = []\<rparr>)))) \<le> 2
   \<and> trace (snd (retry 1 1 2 (Some quiet_logger) flaky \<lparr>env = 2, trace = []\<rparr>))
     = [Invoked (Inr ''ok'')]"
proof -
  have "trace (snd (retry 1 1 2 (Some quiet_logger) always_boom \<lparr>env = 0, trace = []\<rparr>))
     = [Invoked (Inl boom), Logged ''fetch - Retrying in 1s... (0 tries left). Error: boom'',
        Slept 1, Invoked (Inl boom)]"
    by code_simp
  moreover have "trace (snd (retry 1 1 2 (Some quiet_logger) flaky \<lparr>env = 2, trace = []\<rparr>))
     = [Invoked (Inr ''ok'')]"
    by code_simp
  ultimately show ?thesis
    using retry_single_attempt[of 1 2 "Some quiet_logger" always_boom 0] by simp
qed

text \<open>
  C9. With \<open>tries \<le> 0\<close> the loop is not entered: the wrapper is a single invocation of
  the function, whose value or exception it passes on; the logger is not called and no
  wait is taken.
\<close>

theorem retry_nonpositive_tries:
  fixes func :: "('s, 'v) func" and logger_func :: "'s logger option" and s0 :: 's
    and tries delay backoff :: int
  defines "r \<equiv> retry tries delay backoff logger_func func \<lparr>env = s0, trace = []\<rparr>"
  assumes "tries \<le> 0"
  shows "r = call func \<lparr>env = s0, trace = []\<rparr>
       \<and> fst r = fst (run func s0)
       \<and> trace (snd r) = [Invoked (fst r)]
       \<and> logged (trace (snd r)) = []
       \<and> slept (trace (snd r)) = []"
proof -
  have "r = call func \<lparr>env = s0, trace = []\<rparr>"
    unfolding r_def retry_def using assms(2) by (rule wrapper_exhausted)
  then show ?thesis
    by (simp add: call_def split: prod.splits)
qed

theorem retry_nonpositive_tries_witness:
  "retry 0 1 2 (Some quiet_logger) always_boom \<lparr>env = 0, trace = []\<rparr>
     = (Inl boom, \<lparr>env = 1, trace = [Invoked (Inl boom)]\<rparr>)
   \<and> retry (- 3) 1 2 (Some quiet_logger) flaky \<lparr>env = 2, trace = []\<rparr>
     = (Inr ''ok'', \<lparr>env = 3, trace = [Invoked (Inr ''ok'')]\<rparr>)"
proof -
  have t: "(0::int) \<le> 0" "(- 3::int) \<le> 0" by simp_all
  show ?thesis
    using retry_nonpositive_tries[of 0 1 2 "Some quiet_logger" always_boom 0, OF t(1)]
      retry_nonpositive_tries[of "- 3" 1 2 "Some quiet_logger" flaky 2, OF t(2)]
    by (simp add: call_def always_boom_def flaky_def)
qed

section \<open>The registry: the claims\<close>

lemma fallbacks_register_all:
  "fallbacks (register_all regs reg) tool_name =
     (case map_of (rev regs) tool_name of None \<Rightarrow> fallbacks reg tool_name | Some f \<Rightarrow> Some f)"
  unfolding register_all_def
  by (induction regs arbitrary: reg) (auto simp: register_fallback_def split: option.splits)

text \<open>
  C6. The registry is a map, so it holds at most one function for a name. After
  registering \<open>A\<close> and then \<open>B\<close> under \<open>x\<close>, looking \<open>x\<close> up gives \<open>B\<close> (hence not
  \<open>A\<close>, when they differ), and the registry is the one that registering \<open>B\<close> alone
  would have left.
\<close>

theorem register_fallback_last_write_wins:
  "fst (get_fallback x (register_fallback x B (register_fallback x A reg))) = Some B
   \<and> register_fallback x B (register_fallback x A reg) = register_fallback x B reg"
  by (simp add: get_fallback_def register_fallback_def)

text \<open>
  C7. After any sequence of registrations, none of them under \<open>tool_name\<close>, and so also
  before the first registration, \<open>get_fallback tool_name\<close> returns \<^verbatim>\<open>None\<close>; it has no
  raising branch, and it leaves the registry as it was.
\<close>

theorem get_fallback_unregistered:
  "tool_name \<notin> fst ` set regs \<Longrightarrow>
     get_fallback tool_name (register_all regs initial_registry)
       = (None, register_all regs initial_registry)"
proof -
  assume "tool_name \<notin> fst ` set regs"
  then have "map_of (rev regs) tool_name = None"
    by (simp add: map_of_eq_None_iff)
  then show ?thesis
    by (simp add: get_fallback_def fallbacks_register_all initial_registry_def)
qed

theorem get_fallback_unregistered_witness:
  "get_fallback ''unregistered-key'' (initial_registry :: nat FallbackRegistry)
     = (None, initial_registry)
   \<and> fst (get_fallback ''unregistered-key''
          (register_fallback ''search'' (2::nat) (register_fallback ''x'' 1 initial_registry)))
     = None"
proof -
  have a: "''unregistered-key'' \<notin> fst ` set ([] :: (string \<times> nat) list)" by simp
  have b: "''unregistered-key'' \<notin> fst ` set [(''x'', 1::nat), (''search'', 2)]" by simp
  show ?thesis
    using get_fallback_unregistered[OF a] get_fallback_unregistered[OF b]
    by (simp add: register_all_def)
qed

text \<open>
  C10. Registering under \<open>k1\<close> leaves what a lookup of any other name \<open>k2\<close> returns
  unchanged, and a lookup leaves the registry unchanged.
\<close>

theorem register_fallback_frame:
  "(k1 \<noteq> k2 \<longrightarrow>
      fst (get_fallback k2 (register_fallback k1 f reg)) = fst (get_fallback k2 reg))
   \<and> snd (get_fallback k reg) = reg"
  by (simp add: get_fallback_def register_fallback_def)

theorem register_fallback_frame_witness:
  "fst (get_fallback ''b'' (register_fallback ''a'' (7::nat) (register_fallback ''b'' 3 initial_registry)))
     = Some 3
   \<and> snd (get_fallback ''b'' (register_fallback ''b'' (3::nat) initial_registry))
     = register_fallback ''b'' 3 initial_registry"
proof -
  have ne: "''a'' \<noteq> ''b''" by simp
  have "fst (get_fallback ''b'' (register_fallback ''b'' (3::nat) initial_registry)) = Some 3"
    by (simp add: get_fallback_def register_fallback_def)
  then show ?thesis
    using register_fallback_frame[of "''a''" "''b''" "7::nat"
        "register_fallback ''b'' 3 initial_registry" "''b''"] ne
    by simp
qed

end
